theory Spec2Isabelle
  imports Main
begin

section \<open>JavaScript values\<close>

text \<open>
  The values that cross the program's interfaces are JSON documents (the request body read
  by \<open>readBody\<close>, the response object, the arguments of \<open>console.log\<close>, the value
  resolved by \<open>$fetch\<close>). \<open>Obj\<close> lists an object's own properties; numbers are the
  integers (\<open>Date.now()\<close> is an integer number of milliseconds).
\<close>

datatype jsval =
    Undefined
  | Null
  | Bool bool
  | Num int
  | Str string
  | Arr "jsval list"
  | Obj "(string \<times> jsval) list"

text \<open>What a \<open>throw\<close> can carry in this program.\<close>

datatype error =
    H3Error int string      \<comment> \<open>\<open>createError({ statusCode, statusMessage })\<close>\<close>
  | TypeError               \<comment> \<open>reading a property of \<open>undefined\<close> or \<open>null\<close>\<close>
  | SyntaxError             \<comment> \<open>\<open>req.json()\<close> on a body that is not JSON\<close>
  | FetchError "int option" jsval
      \<comment> \<open>\<open>$fetch\<close> rejecting: the response's status and data, \<open>None\<close> when no response arrived\<close>
  | Error string jsval      \<comment> \<open>\<open>new Error(message, { cause })\<close>\<close>

text \<open>JavaScript's truthiness: \<open>!v\<close> is \<open>\<not> truthy v\<close>.\<close>

fun truthy :: "jsval \<Rightarrow> bool" where
  "truthy Undefined = False"
| "truthy Null = False"
| "truthy (Bool b) = b"
| "truthy (Num n) = (n \<noteq> 0)"
| "truthy (Str s) = (s \<noteq> [])"
| "truthy (Arr _) = True"
| "truthy (Obj _) = True"

text \<open>
  \<open>a === b\<close>. Primitives are compared by value; arrays and objects by identity, and the
  two sides compared in this program never are the same object (one is parsed from the
  request, the other comes from the configuration).
\<close>

fun strict_eq :: "jsval \<Rightarrow> jsval \<Rightarrow> bool" where
  "strict_eq (Arr _) _ = False"
| "strict_eq (Obj _) _ = False"
| "strict_eq _ (Arr _) = False"
| "strict_eq _ (Obj _) = False"
| "strict_eq a b = (a = b)"

text \<open>
  \<open>v.name\<close> for a name that no prototype defines (\<open>secret\<close>, \<open>success\<close>,
  \<open>next_run\<close>): a \<open>TypeError\<close> on \<open>undefined\<close> and \<open>null\<close>, the own property of
  an object, \<open>undefined\<close> otherwise.
\<close>

fun get_prop :: "jsval \<Rightarrow> string \<Rightarrow> error + jsval" where
  "get_prop Undefined name = Inl TypeError"
| "get_prop Null name = Inl TypeError"
| "get_prop (Obj fs) name = (case map_of fs name of None \<Rightarrow> Inr Undefined | Some v \<Rightarrow> Inr v)"
| "get_prop _ name = Inr Undefined"

text \<open>An environment or configuration entry (\<open>string | undefined\<close>) as a value.\<close>

fun js_of_env :: "string option \<Rightarrow> jsval" where
  "js_of_env None = Undefined"
| "js_of_env (Some s) = Str s"

text \<open>\<open>String(n)\<close> for an integer \<open>n\<close>: its decimal digits, with a sign when negative.\<close>

definition digit :: "nat \<Rightarrow> char" where
  "digit d = ''0123456789'' ! d"

fun digits :: "nat \<Rightarrow> string" where
  "digits n = (if n < 10 then [digit n] else digits (n div 10) @ [digit (n mod 10)])"

declare digits.simps [simp del]

definition String_num :: "int \<Rightarrow> string" where
  "String_num i = (if i < 0 then CHR ''-'' # digits (nat (- i)) else digits (nat i))"


section \<open>The server: configuration, clock, console and key-value storage\<close>

text \<open>\<open>nuxt.config.ts\<close>: \<open>runtimeConfig: { taskSecret: process.env.TASK_SECRET }\<close>.\<close>

record runtime_config =
  taskSecret :: "string option"

text \<open>
  What the server code reads and writes: the clock behind \<open>Date.now()\<close> (the reading
  number \<open>reads\<close> is the next one handed out), the lines written by \<open>console.log\<close> (one
  argument list per call) and the calls made on the key-value storage, in call order
  (namespace, key, value).
\<close>

record world =
  clock :: "nat \<Rightarrow> int"
  reads :: nat
  console :: "jsval list list"
  storage :: "(string \<times> jsval \<times> jsval) list"

definition Date_now :: "world \<Rightarrow> int \<times> world" where
  "Date_now w = (clock w (reads w), w\<lparr>reads := Suc (reads w)\<rparr>)"

definition console_log :: "jsval list \<Rightarrow> world \<Rightarrow> world" where
  "console_log args w = w\<lparr>console := console w @ [args]\<rparr>"

text \<open>\<open>useStorage(ns)\<close> is the storage mounted under the namespace \<open>ns\<close>.\<close>

definition useStorage :: "string \<Rightarrow> string" where
  "useStorage ns = ns"

definition setItem :: "string \<Rightarrow> jsval \<Rightarrow> jsval \<Rightarrow> world \<Rightarrow> world" where
  "setItem ns key v w = w\<lparr>storage := storage w @ [(ns, key, v)]\<rparr>"

text \<open>\<open>storage.set\<close> is the storage's alias of \<open>setItem\<close>.\<close>

definition storage_set :: "string \<Rightarrow> jsval \<Rightarrow> jsval \<Rightarrow> world \<Rightarrow> world" where
  "storage_set ns key v w = setItem ns key v w"

definition createError :: "int \<Rightarrow> string \<Rightarrow> error" where
  "createError statusCode statusMessage = H3Error statusCode statusMessage"


section \<open>The Secured Trigger Endpoint (\<open>server/api/tasks/example-task.post.ts\<close>)\<close>

text \<open>
  The handler of \<open>src/server/tasks/example/record.ts\<close>, lines 15 to 47. \<open>read_body\<close> is
  what \<open>await readBody(event)\<close> does with the request: it resolves with the parsed body
  (\<open>Inr\<close>; \<open>undefined\<close> when the request has no body) or rejects (\<open>Inl\<close>), as it does
  on a JSON body that does not parse; nothing catches the rejection. A \<open>throw\<close> is the left
  summand of the result, and the world it is returned with is the one reached when it was
  raised.
\<close>

definition example_task_post ::
  "runtime_config \<Rightarrow> error + jsval \<Rightarrow> world \<Rightarrow> (error + jsval) \<times> world" where
  "example_task_post config read_body w =
     (case read_body of
        Inl err \<Rightarrow> (Inl err, w)
      | Inr body \<Rightarrow>
          (let secretKey = js_of_env (taskSecret config) in
           if \<not> truthy secretKey then
             (Inl (createError 500 ''Secret must be set''), w)
           else
             (case get_prop body ''secret'' of
                Inl e \<Rightarrow> (Inl e, w)
              | Inr secret \<Rightarrow>
                  if \<not> strict_eq secret secretKey then
                    (Inl (createError 401 ''Unauthorized''), w)
                  else
                    let (now, w1) = Date_now w;
                        w2 = console_log [Str ''Running example record task: '', Num now] w1;
                        storage = useStorage ''example:record'';
                        w3 = setItem storage (Str (String_num now)) (Num now) w2
                    in (Inr (Obj [(''success'', Bool True),
                                  (''timestamp'', Num now),
                                  (''message'', Str ''Task completed successfully'')]),
                        w3))))"


section \<open>The in-process task (\<open>defineTask\<close>, \<open>example:record\<close>)\<close>

text \<open>
  \<open>run({ payload, context })\<close> of \<open>src/server/tasks/example/record.ts\<close>, lines 6 to 12.
\<close>

definition example_record_run :: "jsval \<Rightarrow> jsval \<Rightarrow> world \<Rightarrow> jsval \<times> world" where
  "example_record_run payload context w =
     (let (now, w1) = Date_now w;
          w2 = console_log [Str ''Running example record task: '', Num now] w1;
          storage = useStorage ''example:record'';
          w3 = storage_set storage (Num now) (Num now) w2
      in (Obj [(''result'', Str ''Success'')], w3))"


section \<open>The External Timer Trigger (Netlify scheduled function)\<close>

text \<open>The two variables of \<open>process.env\<close> that the scheduled function reads.\<close>

record env =
  URL :: "string option"
  NUXT_TASK_SECRET :: "string option"

text \<open>The arguments of the one \<open>$fetch\<close> call.\<close>

record fetch_request =
  req_url :: string
  req_method :: string
  req_body :: jsval

text \<open>
  The scheduled function's console: \<open>console.log\<close> and \<open>console.error\<close> lines, each
  with its arguments. An argument is a value, a caught error, or the object
  \<open>{ cause: error }\<close>.
\<close>

datatype level = LOG | ERROR

datatype arg = Val jsval | Thrown error | CauseOf error

type_synonym trigger_console = "(level \<times> arg list) list"

text \<open>A template literal prints an undefined variable as \<open>undefined\<close>.\<close>

fun template_of_env :: "string option \<Rightarrow> string" where
  "template_of_env None = ''undefined''"
| "template_of_env (Some s) = s"

text \<open>The request both variants send (lines 11 to 16 of either file).\<close>

definition task_request :: "env \<Rightarrow> fetch_request" where
  "task_request e =
     \<lparr>req_url = template_of_env (URL e) @ ''/api/tasks/example-task'',
      req_method = ''POST'',
      req_body = Obj [(''secret'', js_of_env (NUXT_TASK_SECRET e))]\<rparr>"

text \<open>
  The \<open>try\<close> block of \<open>src/unnamed/part_000\<close> (lines 10 to 20), the variant that checks
  the response. \<open>fetch\<close> is what \<open>$fetch\<close> does with a request: it resolves with the
  parsed body of a 2xx response (\<open>Inr\<close>) or rejects (\<open>Inl\<close>).
\<close>

definition part_000_try ::
  "env \<Rightarrow> (fetch_request \<Rightarrow> error + jsval) \<Rightarrow> trigger_console \<Rightarrow> (error + unit) \<times> trigger_console" where
  "part_000_try e fetch con =
     (case fetch (task_request e) of
        Inl err \<Rightarrow> (Inl err, con)
      | Inr response \<Rightarrow>
          (case get_prop response ''success'' of
             Inl err \<Rightarrow> (Inl err, con)
           | Inr success \<Rightarrow>
               if \<not> truthy success then (Inl (Error ''Task failed'' response), con)
               else (Inr (), con @ [(LOG, [Val (Str ''Task completed:''), Val response])])))"

text \<open>
  The scheduled function of \<open>src/unnamed/part_000\<close>. \<open>req_json\<close> is what
  \<open>await req.json()\<close> does: the parsed trigger metadata, or a rejection, which nothing
  catches. The left summand of the result is an exception leaving the function.
\<close>

definition part_000_handler ::
  "env \<Rightarrow> (fetch_request \<Rightarrow> error + jsval) \<Rightarrow> error + jsval \<Rightarrow> trigger_console
     \<Rightarrow> (error + unit) \<times> trigger_console" where
  "part_000_handler e fetch req_json con =
     (case req_json of
        Inl err \<Rightarrow> (Inl err, con)
      | Inr parsed \<Rightarrow>
          (case get_prop parsed ''next_run'' of
             Inl err \<Rightarrow> (Inl err, con)
           | Inr next_run \<Rightarrow>
               let con1 = con @ [(LOG, [Val (Str ''Scheduled function triggered. Next run:''),
                                        Val next_run])]
               in (case part_000_try e fetch con1 of
                     (Inr _, con2) \<Rightarrow> (Inr (), con2)
                   | (Inl error, con2) \<Rightarrow>
                       (Inr (), con2 @ [(ERROR, [Val (Str ''Task failed:''), CauseOf error])]))))"

text \<open>
  The \<open>try\<close> block of \<open>src/netlify/functions/example-task.mts\<close> (lines 10 to 17), the
  variant that logs completion whatever the response holds.
\<close>

definition example_task_mts_try ::
  "env \<Rightarrow> (fetch_request \<Rightarrow> error + jsval) \<Rightarrow> trigger_console \<Rightarrow> (error + unit) \<times> trigger_console" where
  "example_task_mts_try e fetch con =
     (case fetch (task_request e) of
        Inl err \<Rightarrow> (Inl err, con)
      | Inr response \<Rightarrow>
          (Inr (), con @ [(LOG, [Val (Str ''Task completed:''), Val response])]))"

text \<open>The scheduled function of \<open>src/netlify/functions/example-task.mts\<close>.\<close>

definition example_task_mts_handler ::
  "env \<Rightarrow> (fetch_request \<Rightarrow> error + jsval) \<Rightarrow> error + jsval \<Rightarrow> trigger_console
     \<Rightarrow> (error + unit) \<times> trigger_console" where
  "example_task_mts_handler e fetch req_json con =
     (case req_json of
        Inl err \<Rightarrow> (Inl err, con)
      | Inr parsed \<Rightarrow>
          (case get_prop parsed ''next_run'' of
             Inl err \<Rightarrow> (Inl err, con)
           | Inr next_run \<Rightarrow>
               let con1 = con @ [(LOG, [Val (Str ''Scheduled function triggered. Next run:''),
                                        Val next_run])]
               in (case example_task_mts_try e fetch con1 of
                     (Inr _, con2) \<Rightarrow> (Inr (), con2)
                   | (Inl error, con2) \<Rightarrow>
                       (Inr (), con2 @ [(ERROR, [Val (Str ''Task failed:''), Thrown error])]))))"


section \<open>Notions of the specification\<close>

text \<open>
  A Task Result, in the words of the specification's data model:
  \<open>{ success: boolean, timestamp: integer, message: string }\<close>.
\<close>

definition is_task_result :: "jsval \<Rightarrow> bool" where
  "is_task_result v =
     (case v of
        Obj fs \<Rightarrow>
          (case (map_of fs ''success'', map_of fs ''timestamp'', map_of fs ''message'') of
             (Some (Bool _), Some (Num _), Some (Str _)) \<Rightarrow> True
           | _ \<Rightarrow> False)
      | _ \<Rightarrow> False)"

text \<open>
  The outcome of a request, in the specification's words: the body could not be read (with
  the error \<open>readBody\<close> gave); the Shared Secret is not configured; the request carries
  nothing to read a secret from; the secret does not match; the secret matches.
\<close>

datatype outcome = Unparsed error | Unconfigured | Unreadable | Mismatch | Match

definition outcome_of :: "runtime_config \<Rightarrow> error + jsval \<Rightarrow> outcome" where
  "outcome_of config read_body =
     (case read_body of
        Inl err \<Rightarrow> Unparsed err
      | Inr body \<Rightarrow>
          (case taskSecret config of
             None \<Rightarrow> Unconfigured
           | Some k \<Rightarrow>
               if k = [] then Unconfigured
               else (case get_prop body ''secret'' of
                       Inl _ \<Rightarrow> Unreadable
                     | Inr s \<Rightarrow> if s = Str k then Match else Mismatch)))"


section \<open>Concrete inputs\<close>

text \<open>A server whose clock reads 1753000000000, 1753000000001, ... and that has done nothing yet.\<close>

definition tick :: "nat \<Rightarrow> int" where
  "tick n = 1753000000000 + int n"

definition world0 :: world where
  "world0 = \<lparr>clock = tick, reads = 0, console = [], storage = []\<rparr>"

definition config_abc123 :: runtime_config where
  "config_abc123 = \<lparr>taskSecret = Some ''abc123''\<rparr>"

definition config_unset :: runtime_config where
  "config_unset = \<lparr>taskSecret = None\<rparr>"

definition body_of_secret :: "string \<Rightarrow> jsval" where
  "body_of_secret s = Obj [(''secret'', Str s)]"

text \<open>
  What \<open>readBody\<close> does with a JSON body that does not parse: it rejects with the
  framework's error of status 400.
\<close>

definition malformed_body :: "error + jsval" where
  "malformed_body = Inl (H3Error 400 ''Bad Request'')"

definition env0 :: env where
  "env0 = \<lparr>URL = Some ''https://example.netlify.app'', NUXT_TASK_SECRET = Some ''abc123''\<rparr>"

definition metadata0 :: jsval where
  "metadata0 = Obj [(''next_run'', Str ''2025-07-20T12:01:00.000Z'')]"

text \<open>A \<open>$fetch\<close> that resolves with a 2xx response whose \<open>success\<close> is false.\<close>

definition fetch_success_false :: "fetch_request \<Rightarrow> error + jsval" where
  "fetch_success_false r = Inr (Obj [(''success'', Bool False)])"

text \<open>A \<open>$fetch\<close> that rejects with the endpoint's 401.\<close>

definition fetch_unauthorized :: "fetch_request \<Rightarrow> error + jsval" where
  "fetch_unauthorized r = Inl (FetchError (Some 401) (Obj [(''statusMessage'', Str ''Unauthorized'')]))"

text \<open>
  A \<open>$fetch\<close> that resolves with a 2xx response in which the endpoint reports that the task
  failed.
\<close>

definition fetch_handler_failed :: "fetch_request \<Rightarrow> error + jsval" where
  "fetch_handler_failed r =
     Inr (Obj [(''success'', Bool False), (''message'', Str ''Task failed'')])"


section \<open>Facts about the endpoint and the task\<close>

lemma strict_eq_Str: "strict_eq v (Str k) = (v = Str k)"
  by (cases v) auto

lemma get_prop_error: "get_prop v name = Inl e \<Longrightarrow> e = TypeError"
  by (cases v) (auto split: option.splits)

lemma get_prop_readable:
  "v \<noteq> Null \<Longrightarrow> v \<noteq> Undefined \<Longrightarrow> \<exists>s. get_prop v name = Inr s"
proof (cases v)
  case (Obj fs)
  then show ?thesis by (cases "map_of fs name") simp_all
qed simp_all

lemma digits_small: "n < 10 \<Longrightarrow> digits n = [digit n]"
  by (simp add: digits.simps)

lemma digits_large: "\<not> n < 10 \<Longrightarrow> digits n = digits (n div 10) @ [digit (n mod 10)]"
  by (subst digits.simps) simp

lemmas String_num_eval = String_num_def digits_small digits_large digit_def

lemma post_unparsed:
  "example_task_post config (Inl err) w = (Inl err, w)"
  by (simp add: example_task_post_def)

lemma post_unset:
  "taskSecret config = None \<or> taskSecret config = Some [] \<Longrightarrow>
   example_task_post config (Inr body) w = (Inl (H3Error 500 ''Secret must be set''), w)"
  by (auto simp: example_task_post_def createError_def)

lemma post_unreadable:
  "taskSecret config = Some k \<Longrightarrow> k \<noteq> [] \<Longrightarrow> get_prop body ''secret'' = Inl e \<Longrightarrow>
   example_task_post config (Inr body) w = (Inl TypeError, w)"
  by (simp add: example_task_post_def get_prop_error)

lemma post_mismatch:
  "taskSecret config = Some k \<Longrightarrow> k \<noteq> [] \<Longrightarrow> get_prop body ''secret'' = Inr s \<Longrightarrow> s \<noteq> Str k \<Longrightarrow>
   example_task_post config (Inr body) w = (Inl (H3Error 401 ''Unauthorized''), w)"
  by (simp add: example_task_post_def createError_def strict_eq_Str)

lemma post_match:
  "taskSecret config = Some k \<Longrightarrow> k \<noteq> [] \<Longrightarrow> get_prop body ''secret'' = Inr (Str k) \<Longrightarrow>
   example_task_post config (Inr body) w =
     (Inr (Obj [(''success'', Bool True),
                (''timestamp'', Num (clock w (reads w))),
                (''message'', Str ''Task completed successfully'')]),
      w\<lparr>reads := Suc (reads w),
        console := console w @ [[Str ''Running example record task: '', Num (clock w (reads w))]],
        storage := storage w @
          [(''example:record'', Str (String_num (clock w (reads w))), Num (clock w (reads w)))]\<rparr>)"
  by (simp add: example_task_post_def Date_now_def console_log_def useStorage_def setItem_def)

lemma post_rejects:
  assumes "\<not> (\<exists>k body. read_body = Inr body \<and> taskSecret config = Some k \<and> k \<noteq> []
               \<and> get_prop body ''secret'' = Inr (Str k))"
  shows "\<exists>e. example_task_post config read_body w = (Inl e, w)"
proof (cases read_body)
  case (Inl err)
  then show ?thesis by (simp add: post_unparsed)
next
  case body: (Inr body)
  show ?thesis
  proof (cases "taskSecret config")
    case None
    with body show ?thesis by (simp add: post_unset)
  next
    case (Some k)
    show ?thesis
    proof (cases "k = []")
      case True
      with Some body show ?thesis by (simp add: post_unset)
    next
      case False
      show ?thesis
      proof (cases "get_prop body ''secret''")
        case (Inl e)
        with Some False body show ?thesis by (simp add: post_unreadable)
      next
        case (Inr s)
        with assms Some False body have "s \<noteq> Str k" by auto
        with Some False Inr body show ?thesis by (simp add: post_mismatch)
      qed
    qed
  qed
qed

lemma post_accepts:
  assumes "example_task_post config read_body w = (Inr res, w')"
  shows "\<exists>k body. read_body = Inr body \<and> taskSecret config = Some k \<and> k \<noteq> []
           \<and> get_prop body ''secret'' = Inr (Str k)"
proof (rule ccontr)
  assume "\<not> ?thesis"
  then obtain e where "example_task_post config read_body w = (Inl e, w)"
    using post_rejects by blast
  with assms show False by simp
qed

lemma post_by_outcome:
  "example_task_post config read_body w =
     (case outcome_of config read_body of
        Unparsed err \<Rightarrow> (Inl err, w)
      | Unconfigured \<Rightarrow> (Inl (H3Error 500 ''Secret must be set''), w)
      | Unreadable \<Rightarrow> (Inl TypeError, w)
      | Mismatch \<Rightarrow> (Inl (H3Error 401 ''Unauthorized''), w)
      | Match \<Rightarrow>
          (Inr (Obj [(''success'', Bool True),
                     (''timestamp'', Num (clock w (reads w))),
                     (''message'', Str ''Task completed successfully'')]),
           w\<lparr>reads := Suc (reads w),
             console := console w @ [[Str ''Running example record task: '', Num (clock w (reads w))]],
             storage := storage w @
               [(''example:record'', Str (String_num (clock w (reads w))), Num (clock w (reads w)))]\<rparr>))"
proof (cases read_body)
  case (Inl err)
  then show ?thesis by (simp add: post_unparsed outcome_of_def)
next
  case body: (Inr body)
  show ?thesis
  proof (cases "taskSecret config")
    case None
    with body show ?thesis by (simp add: post_unset outcome_of_def)
  next
    case (Some k)
    show ?thesis
    proof (cases "k = []")
      case True
      with Some body show ?thesis by (simp add: post_unset outcome_of_def)
    next
      case False
      show ?thesis
      proof (cases "get_prop body ''secret''")
        case (Inl e)
        with Some False body show ?thesis by (simp add: post_unreadable outcome_of_def)
      next
        case (Inr s)
        show ?thesis
        proof (cases "s = Str k")
          case True
          with Some False Inr body show ?thesis by (simp add: post_match outcome_of_def)
        next
          case ne: False
          with Some False Inr body show ?thesis by (simp add: post_mismatch outcome_of_def)
        qed
      qed
    qed
  qed
qed

lemma run_eq:
  "example_record_run payload context w =
     (Obj [(''result'', Str ''Success'')],
      w\<lparr>reads := Suc (reads w),
        console := console w @ [[Str ''Running example record task: '', Num (clock w (reads w))]],
        storage := storage w @ [(''example:record'', Num (clock w (reads w)), Num (clock w (reads w)))]\<rparr>)"
  by (simp add: example_record_run_def Date_now_def console_log_def useStorage_def
      storage_set_def setItem_def)

section \<open>The endpoint's gate\<close>

text \<open>
  Claim C1. Whatever the request, the endpoint does the task's work (a call on the key-value
  storage, a line on the console) only if the body was read, the Shared Secret is configured
  as a non-empty string and \<open>body.secret\<close> is exactly that string. On every other request
  it ends with an error, and the world it leaves is the one it found: nothing was logged,
  nothing was stored, the clock was not read.
\<close>

theorem task_work_requires_matching_secret:
  "(storage (snd (example_task_post config read_body w)) \<noteq> storage w
      \<or> console (snd (example_task_post config read_body w)) \<noteq> console w
    \<longrightarrow> (\<exists>k body. read_body = Inr body \<and> taskSecret config = Some k \<and> k \<noteq> []
            \<and> get_prop body ''secret'' = Inr (Str k)))
   \<and> (\<not> (\<exists>k body. read_body = Inr body \<and> taskSecret config = Some k \<and> k \<noteq> []
            \<and> get_prop body ''secret'' = Inr (Str k))
    \<longrightarrow> (\<exists>e. example_task_post config read_body w = (Inl e, w)))"
proof -
  have rej: "\<exists>e. example_task_post config read_body w = (Inl e, w)"
    if "\<not> (\<exists>k body. read_body = Inr body \<and> taskSecret config = Some k \<and> k \<noteq> []
            \<and> get_prop body ''secret'' = Inr (Str k))"
    using that by (rule post_rejects)
  then show ?thesis by fastforce
qed

text \<open>
  C1 at concrete requests: with the secret \<open>abc123\<close> configured, the body
  \<open>{"secret":"wrong"}\<close> and a body that does not parse are rejected with the world
  untouched, and the body \<open>{"secret":"abc123"}\<close>, which does reach the storage, carries the
  configured secret.
\<close>

theorem task_work_requires_matching_secret_witness:
  "(\<exists>e. example_task_post config_abc123 (Inr (body_of_secret ''wrong'')) world0 = (Inl e, world0))
   \<and> (\<exists>e. example_task_post config_abc123 malformed_body world0 = (Inl e, world0))
   \<and> storage (snd (example_task_post config_abc123 (Inr (body_of_secret ''abc123'')) world0))
       \<noteq> storage world0
   \<and> (\<exists>k. taskSecret config_abc123 = Some k \<and> k \<noteq> []
          \<and> get_prop (body_of_secret ''abc123'') ''secret'' = Inr (Str k))"
proof -
  have bad: "\<not> (\<exists>k body. Inr (body_of_secret ''wrong'') = Inr body
               \<and> taskSecret config_abc123 = Some k \<and> k \<noteq> []
               \<and> get_prop body ''secret'' = Inr (Str k))"
    by (simp add: config_abc123_def body_of_secret_def)
  have mal: "\<not> (\<exists>k body. malformed_body = Inr body
               \<and> taskSecret config_abc123 = Some k \<and> k \<noteq> []
               \<and> get_prop body ''secret'' = Inr (Str k))"
    by (simp add: malformed_body_def)
  have changed:
    "storage (snd (example_task_post config_abc123 (Inr (body_of_secret ''abc123'')) world0))
       \<noteq> storage world0"
    by (simp add: post_match [of _ "''abc123''"] config_abc123_def body_of_secret_def world0_def)
  from bad
    task_work_requires_matching_secret [of config_abc123 "Inr (body_of_secret ''wrong'')" world0]
  have 1: "\<exists>e. example_task_post config_abc123 (Inr (body_of_secret ''wrong'')) world0
             = (Inl e, world0)"
    by blast
  from mal task_work_requires_matching_secret [of config_abc123 malformed_body world0]
  have 2: "\<exists>e. example_task_post config_abc123 malformed_body world0 = (Inl e, world0)"
    by blast
  from changed
    task_work_requires_matching_secret [of config_abc123 "Inr (body_of_secret ''abc123'')" world0]
  have 3: "\<exists>k. taskSecret config_abc123 = Some k \<and> k \<noteq> []
          \<and> get_prop (body_of_secret ''abc123'') ''secret'' = Inr (Str k)"
    by auto
  from 1 2 changed 3 show ?thesis by blast
qed

text \<open>
  Claim C2, as stated, fails: \<open>readBody\<close> runs before the secret is looked at (line 16), so
  with the Shared Secret not configured a request whose JSON body does not parse ends with
  \<open>readBody\<close>'s error of status 400 and not with the 500 \<open>Secret must be set\<close>.
\<close>

theorem unset_secret_malformed_body_counterexample:
  "fst (example_task_post config_unset malformed_body world0) = Inl (H3Error 400 ''Bad Request'')
   \<and> fst (example_task_post config_unset malformed_body world0)
       \<noteq> Inl (H3Error 500 ''Secret must be set'')"
  by (simp add: example_task_post_def malformed_body_def)

text \<open>
  Claim C2, amended. When the configured Shared Secret is missing (\<open>undefined\<close>) or the
  empty string, every request whose body \<open>readBody\<close> could read, whatever that body is,
  ends with the error of status 500 and message \<open>Secret must be set\<close>; a request whose body
  \<open>readBody\<close> rejects ends with that rejection. In both cases the world is unchanged: no
  storage call, no log line.
\<close>

theorem unset_secret_gives_500_once_body_is_read:
  assumes "taskSecret config = None \<or> taskSecret config = Some []"
  shows "example_task_post config read_body w =
           (case read_body of
              Inl err \<Rightarrow> (Inl err, w)
            | Inr body \<Rightarrow> (Inl (H3Error 500 ''Secret must be set''), w))"
  using assms by (cases read_body) (simp_all add: post_unparsed post_unset)

text \<open>
  C2 amended, with the secret missing and a body that carries a secret, with the secret
  empty and no body at all, and with the secret missing and a body that does not parse.
\<close>

theorem unset_secret_gives_500_once_body_is_read_witness:
  "example_task_post config_unset (Inr (body_of_secret ''abc123'')) world0
     = (Inl (H3Error 500 ''Secret must be set''), world0)
   \<and> example_task_post \<lparr>taskSecret = Some []\<rparr> (Inr Undefined) world0
     = (Inl (H3Error 500 ''Secret must be set''), world0)
   \<and> example_task_post config_unset malformed_body world0
     = (Inl (H3Error 400 ''Bad Request''), world0)"
  using unset_secret_gives_500_once_body_is_read
      [of config_unset "Inr (body_of_secret ''abc123'')" world0]
    unset_secret_gives_500_once_body_is_read [of "\<lparr>taskSecret = Some []\<rparr>" "Inr Undefined" world0]
    unset_secret_gives_500_once_body_is_read [of config_unset malformed_body world0]
  by (simp add: config_unset_def malformed_body_def)

text \<open>
  Claim C3, as stated, fails: with the secret \<open>abc123\<close> configured, a request whose body
  is \<open>null\<close>, or that has no body, supplies no matching secret, and the endpoint ends with
  the \<open>TypeError\<close> of reading \<open>body.secret\<close>, not with the 401; a request whose JSON body
  does not parse ends with \<open>readBody\<close>'s error of status 400.
\<close>

theorem wrong_secret_not_always_401_counterexample:
  "fst (example_task_post config_abc123 (Inr Null) world0) = Inl TypeError
   \<and> fst (example_task_post config_abc123 (Inr Null) world0) \<noteq> Inl (H3Error 401 ''Unauthorized'')
   \<and> fst (example_task_post config_abc123 (Inr Undefined) world0) = Inl TypeError
   \<and> fst (example_task_post config_abc123 malformed_body world0) = Inl (H3Error 400 ''Bad Request'')"
  by (simp add: example_task_post_def config_abc123_def malformed_body_def)

text \<open>
  Claim C3, amended. When a non-empty Shared Secret is configured, every request whose body
  was read as a value other than \<open>null\<close> and \<open>undefined\<close>, and whose \<open>body.secret\<close>
  (\<open>undefined\<close> when the body has no such property) is not that string, ends with the
  error of status 401 and message \<open>Unauthorized\<close>; a request whose body \<open>readBody\<close>
  rejects ends with that rejection before any comparison. In both cases the world is
  unchanged: no storage call, no log line.
\<close>

theorem wrong_secret_gives_401_on_readable_body:
  assumes "taskSecret config = Some k" and "k \<noteq> []"
  shows "(body \<noteq> Null \<and> body \<noteq> Undefined \<and> get_prop body ''secret'' \<noteq> Inr (Str k)
            \<longrightarrow> example_task_post config (Inr body) w = (Inl (H3Error 401 ''Unauthorized''), w))
         \<and> example_task_post config (Inl err) w = (Inl err, w)"
proof -
  have "example_task_post config (Inr body) w = (Inl (H3Error 401 ''Unauthorized''), w)"
    if b: "body \<noteq> Null" "body \<noteq> Undefined" and ne: "get_prop body ''secret'' \<noteq> Inr (Str k)"
  proof -
    from b obtain s where s: "get_prop body ''secret'' = Inr s"
      using get_prop_readable by blast
    with ne have "s \<noteq> Str k" by auto
    with assms s show ?thesis by (rule post_mismatch)
  qed
  then show ?thesis by (simp add: post_unparsed)
qed

text \<open>
  C3 amended, with the secret \<open>abc123\<close> configured, for the bodies \<open>{"secret":"wrong"}\<close>,
  \<open>{}\<close> and \<open>"abc123"\<close> (a string, not an object), and for a body that does not parse.
\<close>

theorem wrong_secret_gives_401_on_readable_body_witness:
  "example_task_post config_abc123 (Inr (body_of_secret ''wrong'')) world0
     = (Inl (H3Error 401 ''Unauthorized''), world0)
   \<and> example_task_post config_abc123 (Inr (Obj [])) world0
     = (Inl (H3Error 401 ''Unauthorized''), world0)
   \<and> example_task_post config_abc123 (Inr (Str ''abc123'')) world0
     = (Inl (H3Error 401 ''Unauthorized''), world0)
   \<and> example_task_post config_abc123 malformed_body world0
     = (Inl (H3Error 400 ''Bad Request''), world0)"
  using wrong_secret_gives_401_on_readable_body
      [of config_abc123 "''abc123''" "body_of_secret ''wrong''" world0 "H3Error 400 ''Bad Request''"]
    wrong_secret_gives_401_on_readable_body
      [of config_abc123 "''abc123''" "Obj []" world0 "H3Error 400 ''Bad Request''"]
    wrong_secret_gives_401_on_readable_body
      [of config_abc123 "''abc123''" "Str ''abc123''" world0 "H3Error 400 ''Bad Request''"]
  by (simp add: config_abc123_def body_of_secret_def malformed_body_def)

section \<open>The accepted request\<close>

text \<open>
  Claim C4. When \<open>body.secret\<close> is the configured non-empty Shared Secret, the endpoint
  returns \<open>{ success: true, timestamp: now, message: "Task completed successfully" }\<close>
  where \<open>now\<close> is the clock reading taken for this request, and it does the task's work
  exactly once: the clock is read once, one line is added to the console and one call is
  made on the storage.
\<close>

theorem correct_secret_runs_task_once:
  assumes "taskSecret config = Some k" and "k \<noteq> []"
    and "get_prop body ''secret'' = Inr (Str k)"
  shows "example_task_post config (Inr body) w =
     (Inr (Obj [(''success'', Bool True),
                (''timestamp'', Num (clock w (reads w))),
                (''message'', Str ''Task completed successfully'')]),
      w\<lparr>reads := Suc (reads w),
        console := console w @ [[Str ''Running example record task: '', Num (clock w (reads w))]],
        storage := storage w @
          [(''example:record'', Str (String_num (clock w (reads w))), Num (clock w (reads w)))]\<rparr>)"
  using assms by (rule post_match)

text \<open>
  C4 with the secret \<open>abc123\<close> configured and the body \<open>{"secret":"abc123"}\<close>, on a
  server whose clock reads 1753000000000.
\<close>

theorem correct_secret_runs_task_once_witness:
  "example_task_post config_abc123 (Inr (body_of_secret ''abc123'')) world0 =
     (Inr (Obj [(''success'', Bool True),
                (''timestamp'', Num 1753000000000),
                (''message'', Str ''Task completed successfully'')]),
      \<lparr>clock = tick, reads = 1,
       console = [[Str ''Running example record task: '', Num 1753000000000]],
       storage = [(''example:record'', Str ''1753000000000'', Num 1753000000000)]\<rparr>)"
  using correct_secret_runs_task_once [of config_abc123 "''abc123''" "body_of_secret ''abc123''" world0]
  by (simp add: config_abc123_def body_of_secret_def world0_def tick_def String_num_eval)

text \<open>
  Claim C8. Two invocations with valid credentials, one after the other, both do the task's
  work: the storage receives two calls, one per invocation (the second invocation changes the
  storage again, nothing is deduplicated), each result carries the clock reading of its own
  invocation, and the two results differ whenever the two readings differ.
\<close>

theorem two_invocations_two_writes:
  assumes "taskSecret config = Some k" and "k \<noteq> []"
    and "get_prop body1 ''secret'' = Inr (Str k)" and "get_prop body2 ''secret'' = Inr (Str k)"
    and "example_task_post config (Inr body1) w = (r1, w1)"
    and "example_task_post config (Inr body2) w1 = (r2, w2)"
  shows "storage w2 = storage w @
           [(''example:record'', Str (String_num (clock w (reads w))), Num (clock w (reads w))),
            (''example:record'', Str (String_num (clock w (Suc (reads w)))),
               Num (clock w (Suc (reads w))))]
         \<and> storage w2 \<noteq> storage w1
         \<and> get_prop (case r1 of Inl e \<Rightarrow> Undefined | Inr v \<Rightarrow> v) ''timestamp''
             = Inr (Num (clock w (reads w)))
         \<and> get_prop (case r2 of Inl e \<Rightarrow> Undefined | Inr v \<Rightarrow> v) ''timestamp''
             = Inr (Num (clock w (Suc (reads w))))
         \<and> (clock w (reads w) \<noteq> clock w (Suc (reads w)) \<longrightarrow> r1 \<noteq> r2)"
proof -
  from assms(1,2,3,5) have 1: "r1 = Inr (Obj [(''success'', Bool True),
                (''timestamp'', Num (clock w (reads w))),
                (''message'', Str ''Task completed successfully'')])"
    and w1: "w1 = w\<lparr>reads := Suc (reads w),
        console := console w @ [[Str ''Running example record task: '', Num (clock w (reads w))]],
        storage := storage w @
          [(''example:record'', Str (String_num (clock w (reads w))), Num (clock w (reads w)))]\<rparr>"
    by (simp_all add: post_match)
  from assms(1,2,4,6) have 2: "r2 = Inr (Obj [(''success'', Bool True),
                (''timestamp'', Num (clock w1 (reads w1))),
                (''message'', Str ''Task completed successfully'')])"
    and w2: "storage w2 = storage w1 @
          [(''example:record'', Str (String_num (clock w1 (reads w1))), Num (clock w1 (reads w1)))]"
    by (auto simp add: post_match)
  from w1 have c: "clock w1 = clock w" and r: "reads w1 = Suc (reads w)"
    and s: "storage w1 = storage w @
          [(''example:record'', Str (String_num (clock w (reads w))), Num (clock w (reads w)))]"
    by simp_all
  show ?thesis
    unfolding 1 2 w2 c r s by simp
qed

text \<open>
  C8 on a server whose clock advances by one millisecond between the two invocations.
\<close>

theorem two_invocations_two_writes_witness:
  "storage (snd (example_task_post config_abc123 (Inr (body_of_secret ''abc123''))
       (snd (example_task_post config_abc123 (Inr (body_of_secret ''abc123'')) world0))))
     = [(''example:record'', Str ''1753000000000'', Num 1753000000000),
        (''example:record'', Str ''1753000000001'', Num 1753000000001)]
   \<and> fst (example_task_post config_abc123 (Inr (body_of_secret ''abc123'')) world0)
       \<noteq> fst (example_task_post config_abc123 (Inr (body_of_secret ''abc123''))
             (snd (example_task_post config_abc123 (Inr (body_of_secret ''abc123'')) world0)))"
proof -
  have k: "taskSecret config_abc123 = Some ''abc123''" "''abc123'' \<noteq> []"
    and b: "get_prop (body_of_secret ''abc123'') ''secret'' = Inr (Str ''abc123'')"
    by (simp_all add: config_abc123_def body_of_secret_def)
  have t: "clock world0 (reads world0) \<noteq> clock world0 (Suc (reads world0))"
    by (simp add: world0_def tick_def)
  from two_invocations_two_writes [OF k b b surjective_pairing surjective_pairing, of world0] t
  show ?thesis
    by (simp add: world0_def tick_def String_num_eval)
qed

section \<open>The secrets do not flow into the output\<close>

text \<open>
  Claim C9. What the endpoint returns (response or error) and the world it leaves (console
  and storage included) are the same for any two pairs of configured secret and request that
  have the same outcome (body not read, with the same error of \<open>readBody\<close>; secret not
  configured; no secret to read; mismatch; match): the output depends on the two secrets
  only through that outcome, so no log line, response or error carries anything of their
  values. By \<open>post_by_outcome\<close> the output is made of the fixed texts of the source, of the
  clock reading and, when \<open>readBody\<close> rejects, of its error only.
\<close>

theorem output_depends_on_outcome_only:
  assumes "outcome_of config1 read_body1 = outcome_of config2 read_body2"
  shows "example_task_post config1 read_body1 w = example_task_post config2 read_body2 w"
  using assms by (simp add: post_by_outcome)

text \<open>
  C9 for two different matching secrets, for two different mismatching requests against two
  different configured secrets, and for a body that does not parse under two different
  configured secrets.
\<close>

theorem output_depends_on_outcome_only_witness:
  "example_task_post config_abc123 (Inr (body_of_secret ''abc123'')) world0
     = example_task_post \<lparr>taskSecret = Some ''hunter2''\<rparr> (Inr (body_of_secret ''hunter2'')) world0
   \<and> example_task_post config_abc123 (Inr (body_of_secret ''wrong'')) world0
     = example_task_post \<lparr>taskSecret = Some ''hunter2''\<rparr> (Inr (Obj [(''secret'', Num 7)])) world0
   \<and> example_task_post config_abc123 malformed_body world0
     = example_task_post \<lparr>taskSecret = Some ''hunter2''\<rparr> malformed_body world0"
  using output_depends_on_outcome_only [of config_abc123 "Inr (body_of_secret ''abc123'')"
      "\<lparr>taskSecret = Some ''hunter2''\<rparr>" "Inr (body_of_secret ''hunter2'')" world0]
    output_depends_on_outcome_only [of config_abc123 "Inr (body_of_secret ''wrong'')"
      "\<lparr>taskSecret = Some ''hunter2''\<rparr>" "Inr (Obj [(''secret'', Num 7)])" world0]
    output_depends_on_outcome_only [of config_abc123 malformed_body
      "\<lparr>taskSecret = Some ''hunter2''\<rparr>" malformed_body world0]
  by (simp add: outcome_of_def config_abc123_def body_of_secret_def malformed_body_def)

text \<open>
  Claim C10. On every successful invocation the clock is read once, and that one reading
  \<open>now\<close> is the value stored, its string form \<open>String(now)\<close> is the key it is stored
  under, it is the timestamp on the log line, and it is the \<open>timestamp\<close> of the response.
\<close>

theorem one_clock_reading_used_throughout:
  assumes "example_task_post config read_body w = (Inr res, w')"
  shows "reads w' = Suc (reads w)
         \<and> storage w' = storage w @
             [(''example:record'', Str (String_num (fst (Date_now w))), Num (fst (Date_now w)))]
         \<and> console w' = console w @
             [[Str ''Running example record task: '', Num (fst (Date_now w))]]
         \<and> get_prop res ''timestamp'' = Inr (Num (fst (Date_now w)))"
proof -
  from assms obtain k body where "read_body = Inr body" "taskSecret config = Some k" "k \<noteq> []"
    "get_prop body ''secret'' = Inr (Str k)"
    using post_accepts by blast
  with assms show ?thesis
    by (auto simp add: post_match Date_now_def)
qed

text \<open>
  C10 on the accepted request \<open>{"secret":"abc123"}\<close> at clock reading 1753000000000.
\<close>

theorem one_clock_reading_used_throughout_witness:
  "reads (snd (example_task_post config_abc123 (Inr (body_of_secret ''abc123'')) world0)) = 1
   \<and> storage (snd (example_task_post config_abc123 (Inr (body_of_secret ''abc123'')) world0))
       = [(''example:record'', Str ''1753000000000'', Num 1753000000000)]
   \<and> console (snd (example_task_post config_abc123 (Inr (body_of_secret ''abc123'')) world0))
       = [[Str ''Running example record task: '', Num 1753000000000]]
   \<and> fst (example_task_post config_abc123 (Inr (body_of_secret ''abc123'')) world0)
       = Inr (Obj [(''success'', Bool True), (''timestamp'', Num 1753000000000),
                   (''message'', Str ''Task completed successfully'')])"
proof -
  have f: "fst (example_task_post config_abc123 (Inr (body_of_secret ''abc123'')) world0)
       = Inr (Obj [(''success'', Bool True), (''timestamp'', Num 1753000000000),
                   (''message'', Str ''Task completed successfully'')])"
    by (simp add: post_match [of _ "''abc123''"] config_abc123_def body_of_secret_def
        world0_def tick_def)
  then have e: "example_task_post config_abc123 (Inr (body_of_secret ''abc123'')) world0 =
     (Inr (Obj [(''success'', Bool True), (''timestamp'', Num 1753000000000),
                (''message'', Str ''Task completed successfully'')]),
      snd (example_task_post config_abc123 (Inr (body_of_secret ''abc123'')) world0))"
    by (simp add: prod_eq_iff)
  from one_clock_reading_used_throughout [OF e] f show ?thesis
    by (simp add: Date_now_def world0_def tick_def String_num_eval)
qed

section \<open>Facts about the scheduled functions\<close>

lemma part_000_handler_returns:
  "get_prop parsed ''next_run'' = Inr next_run \<Longrightarrow>
   fst (part_000_handler e fetch (Inr parsed) con) = Inr ()"
  by (simp add: part_000_handler_def split: prod.splits sum.splits)

lemma example_task_mts_handler_returns:
  "get_prop parsed ''next_run'' = Inr next_run \<Longrightarrow>
   fst (example_task_mts_handler e fetch (Inr parsed) con) = Inr ()"
  by (simp add: example_task_mts_handler_def split: prod.splits sum.splits)

lemma part_000_handler_rejected:
  "get_prop parsed ''next_run'' = Inr next_run \<Longrightarrow> fetch (task_request e) = Inl err \<Longrightarrow>
   part_000_handler e fetch (Inr parsed) con =
     (Inr (), con @ [(LOG, [Val (Str ''Scheduled function triggered. Next run:''), Val next_run]),
                     (ERROR, [Val (Str ''Task failed:''), CauseOf err])])"
  by (simp add: part_000_handler_def part_000_try_def)

lemma example_task_mts_handler_rejected:
  "get_prop parsed ''next_run'' = Inr next_run \<Longrightarrow> fetch (task_request e) = Inl err \<Longrightarrow>
   example_task_mts_handler e fetch (Inr parsed) con =
     (Inr (), con @ [(LOG, [Val (Str ''Scheduled function triggered. Next run:''), Val next_run]),
                     (ERROR, [Val (Str ''Task failed:''), Thrown err])])"
  by (simp add: example_task_mts_handler_def example_task_mts_try_def)

text \<open>
  The variant of \<open>src/unnamed/part_000\<close> logs an error for every response whose
  \<open>success\<close> is falsy or absent, and for a response that is no object at all; the variant
  of \<open>src/netlify/functions/example-task.mts\<close> logs completion for every response.
\<close>

lemma part_000_handler_checks_success:
  assumes "get_prop parsed ''next_run'' = Inr next_run"
    and "fetch (task_request e) = Inr response"
    and "get_prop response ''success'' = Inr success" and "\<not> truthy success"
  shows "part_000_handler e fetch (Inr parsed) con =
     (Inr (), con @ [(LOG, [Val (Str ''Scheduled function triggered. Next run:''), Val next_run]),
                     (ERROR, [Val (Str ''Task failed:''),
                              CauseOf (Error ''Task failed'' response)])])"
  using assms by (simp add: part_000_handler_def part_000_try_def)

lemma part_000_handler_no_response_object:
  assumes "get_prop parsed ''next_run'' = Inr next_run"
    and "fetch (task_request e) = Inr response"
    and "get_prop response ''success'' = Inl err"
  shows "part_000_handler e fetch (Inr parsed) con =
     (Inr (), con @ [(LOG, [Val (Str ''Scheduled function triggered. Next run:''), Val next_run]),
                     (ERROR, [Val (Str ''Task failed:''), CauseOf err])])"
  using assms by (simp add: part_000_handler_def part_000_try_def)

lemma example_task_mts_handler_ignores_success:
  assumes "get_prop parsed ''next_run'' = Inr next_run"
    and "fetch (task_request e) = Inr response"
  shows "example_task_mts_handler e fetch (Inr parsed) con =
     (Inr (), con @ [(LOG, [Val (Str ''Scheduled function triggered. Next run:''), Val next_run]),
                     (LOG, [Val (Str ''Task completed:''), Val response])])"
  using assms by (simp add: example_task_mts_handler_def example_task_mts_try_def)

text \<open>
  Everything either variant does once the trigger metadata has been read: it returns
  normally, having added the line about the next run and exactly one more line.
\<close>

lemma part_000_handler_outcome:
  assumes "get_prop parsed ''next_run'' = Inr next_run"
  shows "part_000_handler e fetch (Inr parsed) con =
     (Inr (),
      con @ [(LOG, [Val (Str ''Scheduled function triggered. Next run:''), Val next_run]),
             (case fetch (task_request e) of
                Inl err \<Rightarrow> (ERROR, [Val (Str ''Task failed:''), CauseOf err])
              | Inr response \<Rightarrow>
                  (case get_prop response ''success'' of
                     Inl err \<Rightarrow> (ERROR, [Val (Str ''Task failed:''), CauseOf err])
                   | Inr success \<Rightarrow>
                       if truthy success
                       then (LOG, [Val (Str ''Task completed:''), Val response])
                       else (ERROR, [Val (Str ''Task failed:''),
                                     CauseOf (Error ''Task failed'' response)])))])"
  using assms by (simp add: part_000_handler_def part_000_try_def split: sum.splits)

lemma example_task_mts_handler_outcome:
  assumes "get_prop parsed ''next_run'' = Inr next_run"
  shows "example_task_mts_handler e fetch (Inr parsed) con =
     (Inr (),
      con @ [(LOG, [Val (Str ''Scheduled function triggered. Next run:''), Val next_run]),
             (case fetch (task_request e) of
                Inl err \<Rightarrow> (ERROR, [Val (Str ''Task failed:''), Thrown err])
              | Inr response \<Rightarrow> (LOG, [Val (Str ''Task completed:''), Val response]))])"
  using assms
  by (simp add: example_task_mts_handler_def example_task_mts_try_def split: sum.splits)

section \<open>The Timer Trigger\<close>

text \<open>
  Claim C5. The claim asks of both variants that a response whose \<open>success\<close> is false or
  absent be logged as an error and not as a completion. The variant of
  \<open>src/netlify/functions/example-task.mts\<close> does not look at the response: when \<open>$fetch\<close>
  resolves with \<open>{ "success": false }\<close> it logs \<open>Task completed:\<close> and no error. The
  variant of \<open>src/unnamed/part_000\<close> does what the claim says
  (\<open>part_000_handler_checks_success\<close>, \<open>checked_variant_logs_error_on_failure\<close>).
\<close>

theorem unchecked_variant_logs_completion_on_failure:
  "example_task_mts_handler env0 fetch_success_false (Inr metadata0) [] =
     (Inr (), [(LOG, [Val (Str ''Scheduled function triggered. Next run:''),
                      Val (Str ''2025-07-20T12:01:00.000Z'')]),
               (LOG, [Val (Str ''Task completed:''), Val (Obj [(''success'', Bool False)])])])"
  by (simp add: example_task_mts_handler_def example_task_mts_try_def fetch_success_false_def
      metadata0_def)

lemma checked_variant_logs_error_on_failure:
  "part_000_handler env0 fetch_success_false (Inr metadata0) [] =
     (Inr (), [(LOG, [Val (Str ''Scheduled function triggered. Next run:''),
                      Val (Str ''2025-07-20T12:01:00.000Z'')]),
               (ERROR, [Val (Str ''Task failed:''),
                        CauseOf (Error ''Task failed'' (Obj [(''success'', Bool False)]))])])"
  by (simp add: part_000_handler_def part_000_try_def fetch_success_false_def metadata0_def)

text \<open>
  Claim C6. Once the trigger metadata has been read, both variants return normally whatever
  \<open>$fetch\<close> does, and both log a rejection of \<open>$fetch\<close> (a failure response such as 401 or
  500, a transport error) with its cause (\<open>part_000_handler_outcome\<close>,
  \<open>example_task_mts_handler_outcome\<close>). The variant of \<open>src/unnamed/part_000\<close> also logs,
  with its cause, a response that does not report success. The variant of
  \<open>src/netlify/functions/example-task.mts\<close> does not: when \<open>$fetch\<close> resolves with a
  response in which the endpoint reports that the task failed, the function returns normally
  and its console holds no error line, so that failure is not logged.
\<close>

theorem unchecked_variant_returns_without_logging_failure:
  "example_task_mts_handler env0 fetch_handler_failed (Inr metadata0) [] =
     (Inr (), [(LOG, [Val (Str ''Scheduled function triggered. Next run:''),
                      Val (Str ''2025-07-20T12:01:00.000Z'')]),
               (LOG, [Val (Str ''Task completed:''),
                      Val (Obj [(''success'', Bool False), (''message'', Str ''Task failed'')])])])
   \<and> ERROR \<notin> set (map fst (snd (example_task_mts_handler env0 fetch_handler_failed
                                     (Inr metadata0) [])))"
  by (simp add: example_task_mts_handler_def example_task_mts_try_def fetch_handler_failed_def
      metadata0_def)

lemma checked_variant_logs_reported_failure:
  "part_000_handler env0 fetch_handler_failed (Inr metadata0) [] =
     (Inr (), [(LOG, [Val (Str ''Scheduled function triggered. Next run:''),
                      Val (Str ''2025-07-20T12:01:00.000Z'')]),
               (ERROR, [Val (Str ''Task failed:''),
                        CauseOf (Error ''Task failed''
                          (Obj [(''success'', Bool False), (''message'', Str ''Task failed'')]))])])"
  by (simp add: part_000_handler_def part_000_try_def fetch_handler_failed_def metadata0_def)

lemma both_variants_log_a_rejection:
  "part_000_handler env0 fetch_unauthorized (Inr metadata0) [] =
     (Inr (), [(LOG, [Val (Str ''Scheduled function triggered. Next run:''),
                      Val (Str ''2025-07-20T12:01:00.000Z'')]),
               (ERROR, [Val (Str ''Task failed:''),
                        CauseOf (FetchError (Some 401)
                          (Obj [(''statusMessage'', Str ''Unauthorized'')]))])])
   \<and> example_task_mts_handler env0 fetch_unauthorized (Inr metadata0) [] =
     (Inr (), [(LOG, [Val (Str ''Scheduled function triggered. Next run:''),
                      Val (Str ''2025-07-20T12:01:00.000Z'')]),
               (ERROR, [Val (Str ''Task failed:''),
                        Thrown (FetchError (Some 401)
                          (Obj [(''statusMessage'', Str ''Unauthorized'')]))])])"
  by (simp add: part_000_handler_def part_000_try_def example_task_mts_handler_def
      example_task_mts_try_def fetch_unauthorized_def metadata0_def)

section \<open>The task and the endpoint\<close>

text \<open>
  Claim C7, as stated, fails: the value returned by the task's \<open>run\<close> is
  \<open>{ result: "Success" }\<close>, which is not a Task Result and is not the value the endpoint
  returns for the same clock reading.
\<close>

theorem task_result_differs_counterexample:
  "\<not> is_task_result (fst (example_record_run Undefined Undefined world0))
   \<and> Inr (fst (example_record_run Undefined Undefined world0))
       \<noteq> fst (example_task_post config_abc123 (Inr (body_of_secret ''abc123'')) world0)"
  by (simp add: run_eq is_task_result_def post_match [of _ "''abc123''"] config_abc123_def
      body_of_secret_def)

text \<open>
  Claim C7, amended. Started in the same world, the task's \<open>run\<close> and an accepted request
  to the endpoint read the clock once each, log the same line and make one storage call each
  on the namespace \<open>example:record\<close> with the clock reading as the value; but \<open>run\<close>
  returns \<open>{ result: "Success" }\<close>, which is not a Task Result, while the endpoint returns
  a Task Result. (The form of the key passed to the storage is left aside.)
\<close>

theorem task_and_endpoint_same_effects_different_results:
  assumes "example_task_post config read_body w = (Inr res, w')"
  shows "console (snd (example_record_run payload context w)) = console w'
       \<and> reads (snd (example_record_run payload context w)) = reads w'
       \<and> map (\<lambda>(ns, key, v). (ns, v)) (storage (snd (example_record_run payload context w)))
           = map (\<lambda>(ns, key, v). (ns, v)) (storage w')
       \<and> fst (example_record_run payload context w) = Obj [(''result'', Str ''Success'')]
       \<and> \<not> is_task_result (fst (example_record_run payload context w))
       \<and> is_task_result res"
proof -
  from assms obtain k body where "read_body = Inr body" "taskSecret config = Some k" "k \<noteq> []"
    "get_prop body ''secret'' = Inr (Str k)"
    using post_accepts by blast
  with assms show ?thesis
    by (auto simp add: post_match run_eq is_task_result_def)
qed

text \<open>
  C7 amended, at clock reading 1753000000000.
\<close>

theorem task_and_endpoint_same_effects_different_results_witness:
  "console (snd (example_record_run Undefined Undefined world0))
     = [[Str ''Running example record task: '', Num 1753000000000]]
   \<and> console (snd (example_task_post config_abc123 (Inr (body_of_secret ''abc123'')) world0))
     = [[Str ''Running example record task: '', Num 1753000000000]]
   \<and> fst (example_record_run Undefined Undefined world0) = Obj [(''result'', Str ''Success'')]
   \<and> fst (example_task_post config_abc123 (Inr (body_of_secret ''abc123'')) world0)
       = Inr (Obj [(''success'', Bool True), (''timestamp'', Num 1753000000000),
                   (''message'', Str ''Task completed successfully'')])"
proof -
  have f: "fst (example_task_post config_abc123 (Inr (body_of_secret ''abc123'')) world0)
       = Inr (Obj [(''success'', Bool True), (''timestamp'', Num 1753000000000),
                   (''message'', Str ''Task completed successfully'')])"
    by (simp add: post_match [of _ "''abc123''"] config_abc123_def body_of_secret_def
        world0_def tick_def)
  then have e: "example_task_post config_abc123 (Inr (body_of_secret ''abc123'')) world0 =
     (Inr (Obj [(''success'', Bool True), (''timestamp'', Num 1753000000000),
                (''message'', Str ''Task completed successfully'')]),
      snd (example_task_post config_abc123 (Inr (body_of_secret ''abc123'')) world0))"
    by (simp add: prod_eq_iff)
  have c: "console (snd (example_record_run Undefined Undefined world0))
     = [[Str ''Running example record task: '', Num 1753000000000]]"
    by (simp add: run_eq world0_def tick_def)
  from task_and_endpoint_same_effects_different_results [OF e, of Undefined Undefined] f c
  show ?thesis by simp
qed

end
